theory Spec2Isabelle
  imports Main "HOL-Library.Word"
begin

unbundle bit_operations_syntax

section \<open>The conversion adapter \<open>scripts/convert_pdf.py\<close>\<close>

text \<open>
  The script reads one JSON request from \<open>sys.argv[1]\<close>, calls the external routine
  \<open>transform_epub\<close> of the library \<open>pdf_craft\<close> with it, prints one JSON verdict and
  ends the process through \<open>sys.exit\<close>. The embedding follows the script line by line.
  What the script does not define itself is taken as follows:
  \<^item> \<open>json.loads\<close> and \<open>transform_epub\<close> are parameters of the model (\<open>loads\<close>,
    \<open>transform_epub\<close>), so every theorem holds for whatever they compute;
  \<^item> \<open>json.dumps\<close>, \<open>print\<close>, \<open>dict.get\<close>, subscription, truth testing, \<open>str\<close> of an
    exception and \<open>sys.exit\<close> are modelled after CPython 3;
  \<^item> a character is a code point below 256 (\<open>char\<close>), and writing to a stream succeeds;
  \<^item> a call of \<open>transform_epub\<close> ends: it returns or it raises. The streams of the model
    hold what the adapter itself prints.
\<close>

subsection \<open>Values of a parsed request\<close>

text \<open>
  What \<open>json.loads\<close> returns: \<open>None\<close>, a \<open>bool\<close>, an \<open>int\<close>, a \<open>float\<close> (its 64 bits), a
  \<open>str\<close>, a \<open>list\<close> or a \<open>dict\<close>. A \<open>dict\<close> is the list of its items, read with \<open>map_of\<close>.
\<close>

datatype json =
    JNull
  | JBool bool
  | JInt int
  | JFloat "64 word"
  | JStr string
  | JArr "json list"
  | JObj "(string \<times> json) list"

text \<open>The name of the Python type of a value, as error messages print it.\<close>

fun type_name :: "json \<Rightarrow> string" where
  "type_name JNull = ''NoneType''"
| "type_name (JBool _) = ''bool''"
| "type_name (JInt _) = ''int''"
| "type_name (JFloat _) = ''float''"
| "type_name (JStr _) = ''str''"
| "type_name (JArr _) = ''list''"
| "type_name (JObj _) = ''dict''"

text \<open>
  Truth testing, as in \<open>if author\<close>: \<open>None\<close>, \<open>False\<close>, zero and the empty containers are
  false. A float is zero when all bits but the sign bit are clear.
\<close>

fun truthy :: "json \<Rightarrow> bool" where
  "truthy JNull = False"
| "truthy (JBool b) = b"
| "truthy (JInt i) = (i \<noteq> 0)"
| "truthy (JFloat w) = (push_bit 1 w \<noteq> 0)"
| "truthy (JStr s) = (s \<noteq> [])"
| "truthy (JArr xs) = (xs \<noteq> [])"
| "truthy (JObj kvs) = (kvs \<noteq> [])"

subsection \<open>Exceptions\<close>

text \<open>
  \<open>exception\<close> holds the instances of Python's class \<open>Exception\<close>, each with the text that
  \<open>str(e)\<close> gives. \<open>base_exception\<close> is \<open>BaseException\<close>: these, and the conditions that
  are not instances of \<open>Exception\<close> (\<open>SystemExit\<close> with its status, \<open>KeyboardInterrupt\<close>,
  and any other). The clause \<open>except Exception as e\<close> matches the constructor
  \<open>Exception\<close> and nothing else.
\<close>

datatype exception =
    JSONDecodeError string
  | KeyError string
  | TypeError string
  | AttributeError string
  | OtherException string

datatype base_exception =
    Exception exception
  | SystemExit nat
  | KeyboardInterrupt
  | OtherBaseException string

fun str :: "exception \<Rightarrow> string" where
  "str (JSONDecodeError m) = m"
| "str (KeyError m) = m"
| "str (TypeError m) = m"
| "str (AttributeError m) = m"
| "str (OtherException m) = m"

text \<open>
  \<open>repr\<close> of a string that has no quote, no backslash and no unprintable character, as the
  two keys and the type names below: the string between single quotes.
\<close>

definition quoted :: "string \<Rightarrow> string" where
  "quoted s = [CHR 0x27] @ s @ [CHR 0x27]"

text \<open>
  \<open>args[key]\<close> with a string key. A \<open>dict\<close> without the key raises \<open>KeyError(key)\<close>, whose
  \<open>str\<close> is the \<open>repr\<close> of the key; every other value raises \<open>TypeError\<close> (messages of
  CPython 3.11 and later).
\<close>

fun subscript :: "json \<Rightarrow> string \<Rightarrow> base_exception + json" where
  "subscript (JObj kvs) k =
     (case map_of kvs k of
        None \<Rightarrow> Inl (Exception (KeyError (quoted k)))
      | Some v \<Rightarrow> Inr v)"
| "subscript (JArr xs) k =
     Inl (Exception (TypeError ''list indices must be integers or slices, not str''))"
| "subscript (JStr s) k =
     Inl (Exception (TypeError (''string indices must be integers, not '' @ quoted ''str'')))"
| "subscript v k =
     Inl (Exception (TypeError (quoted (type_name v) @ '' object is not subscriptable'')))"

text \<open>\<open>args.get(key, default)\<close>: only a \<open>dict\<close> has the method.\<close>

fun get :: "json \<Rightarrow> string \<Rightarrow> json \<Rightarrow> base_exception + json" where
  "get (JObj kvs) k d = Inr (case map_of kvs k of None \<Rightarrow> d | Some v \<Rightarrow> v)"
| "get v k d =
     Inl (Exception (AttributeError
       (quoted (type_name v) @ '' object has no attribute '' @ quoted ''get'')))"

subsection \<open>\<open>json.dumps\<close> of a response\<close>

text \<open>
  The adapter serialises dictionaries whose values are a \<open>bool\<close> or a \<open>str\<close>. \<open>json.dumps\<close>
  with its default options writes the items in order, separated by a comma and a space,
  key and value separated by a colon and a space, and escapes every character of a string
  outside the printable ASCII range (\<open>ensure_ascii\<close>).
\<close>

datatype resp_value = RBool bool | RStr string

definition hex_digit :: "nat \<Rightarrow> char" where
  "hex_digit n = ''0123456789abcdef'' ! (n mod 16)"

definition hex4 :: "nat \<Rightarrow> string" where
  "hex4 n = [hex_digit (n div 4096), hex_digit (n div 256), hex_digit (n div 16), hex_digit n]"

definition escape_char :: "char \<Rightarrow> string" where
  "escape_char c =
     (if c = CHR 0x5C then [CHR 0x5C, CHR 0x5C]
      else if c = CHR 0x22 then [CHR 0x5C, CHR 0x22]
      else if c = CHR 0x08 then [CHR 0x5C, CHR ''b'']
      else if c = CHR 0x0C then [CHR 0x5C, CHR ''f'']
      else if c = CHR 0x0A then [CHR 0x5C, CHR ''n'']
      else if c = CHR 0x0D then [CHR 0x5C, CHR ''r'']
      else if c = CHR 0x09 then [CHR 0x5C, CHR ''t'']
      else if (32::nat) \<le> of_char c \<and> of_char c \<le> (126::nat) then [c]
      else [CHR 0x5C, CHR ''u''] @ hex4 (of_char c))"

definition encode_str :: "string \<Rightarrow> string" where
  "encode_str s = [CHR 0x22] @ concat (map escape_char s) @ [CHR 0x22]"

fun dumps_value :: "resp_value \<Rightarrow> string" where
  "dumps_value (RBool b) = (if b then ''true'' else ''false'')"
| "dumps_value (RStr s) = encode_str s"

fun dumps_items :: "(string \<times> resp_value) list \<Rightarrow> string" where
  "dumps_items [] = []"
| "dumps_items [(k, v)] = encode_str k @ '': '' @ dumps_value v"
| "dumps_items ((k, v) # kvs) =
     encode_str k @ '': '' @ dumps_value v @ '', '' @ dumps_items kvs"

definition dumps :: "(string \<times> resp_value) list \<Rightarrow> string" where
  "dumps d = ''{'' @ dumps_items d @ ''}''"

subsection \<open>The streams and the end of the process\<close>

record streams =
  stdout :: string
  stderr :: string

text \<open>\<open>print(s)\<close> and \<open>print(s, file=sys.stderr)\<close> write the text and a newline.\<close>

definition print :: "string \<Rightarrow> streams \<Rightarrow> streams" where
  "print s st = st\<lparr>stdout := stdout st @ s @ [CHR 0x0A]\<rparr>"

definition print_stderr :: "string \<Rightarrow> streams \<Rightarrow> streams" where
  "print_stderr s st = st\<lparr>stderr := stderr st @ s @ [CHR 0x0A]\<rparr>"

text \<open>
  How the interpreter ends: \<open>SystemExit\<close> that reaches the top level ends the process with
  its status and prints nothing; any other exception that reaches it is printed as a
  traceback.
\<close>

datatype ending = Exited nat | Traceback base_exception

record outcome = streams +
  ending :: ending

subsection \<open>The call of the conversion routine\<close>

record BookMeta =
  title :: json
  authors :: "json list"

record transform_epub_args =
  pdf_path :: json
  epub_path :: json
  book_meta :: BookMeta
  ocr_size :: string
  includes_cover :: bool
  includes_footnotes :: bool
  ignore_pdf_errors :: bool
  ignore_ocr_errors :: bool

text \<open>
  Lines 26 to 45 up to the call: the fields are read from the parsed request and the
  keyword arguments of \<open>transform_epub\<close> are built.
\<close>

definition request_call :: "json \<Rightarrow> base_exception + transform_epub_args" where
  "request_call args =
     (case subscript args ''pdf_path'' of
        Inl e \<Rightarrow> Inl e
      | Inr p \<Rightarrow>
     (case subscript args ''epub_path'' of
        Inl e \<Rightarrow> Inl e
      | Inr q \<Rightarrow>
     (case get args ''title'' (JStr ''Untitled'') of
        Inl e \<Rightarrow> Inl e
      | Inr t \<Rightarrow>
     (case get args ''author'' (JStr []) of
        Inl e \<Rightarrow> Inl e
      | Inr author \<Rightarrow>
          Inr \<lparr>pdf_path = p, epub_path = q,
               book_meta = \<lparr>title = t, authors = (if truthy author then [author] else [])\<rparr>,
               ocr_size = ''small'',
               includes_cover = True,
               includes_footnotes = True,
               ignore_pdf_errors = True,
               ignore_ocr_errors = True\<rparr>))))"

subsection \<open>\<open>main\<close>\<close>

text \<open>
  The body of the \<open>try\<close> statement (lines 25 to 48). It never falls through: it ends with
  \<open>sys.exit(0)\<close>, which raises \<open>SystemExit\<close>, or with the exception of an earlier line.
  \<open>loads s = Inl e\<close> says that \<open>json.loads\<close> raised \<open>e\<close>; \<open>transform_epub c = Some e\<close> says
  that the routine raised \<open>e\<close>, \<open>None\<close> that it returned.
\<close>

definition try_body ::
  "(string \<Rightarrow> exception + json) \<Rightarrow> (transform_epub_args \<Rightarrow> base_exception option) \<Rightarrow>
   string \<Rightarrow> streams \<Rightarrow> streams \<times> base_exception" where
  "try_body loads transform_epub arg st =
     (case loads arg of
        Inl e \<Rightarrow> (st, Exception e)
      | Inr args \<Rightarrow>
     (case request_call args of
        Inl e \<Rightarrow> (st, e)
      | Inr c \<Rightarrow>
     (case transform_epub c of
        Some e \<Rightarrow> (st, e)
      | None \<Rightarrow> (print (dumps [(''success'', RBool True)]) st, SystemExit 0))))"

text \<open>
  \<open>main()\<close>, lines 19 to 52. \<open>argv\<close> is \<open>sys.argv\<close>, the script's name first. The function
  returns the streams and the exception that leaves it.
\<close>

definition main ::
  "(string \<Rightarrow> exception + json) \<Rightarrow> (transform_epub_args \<Rightarrow> base_exception option) \<Rightarrow>
   string list \<Rightarrow> streams \<Rightarrow> streams \<times> base_exception" where
  "main loads transform_epub argv st =
     (if length argv < 2 then
        (print (dumps [(''success'', RBool False),
                       (''error'', RStr ''No arguments provided'')]) st,
         SystemExit 1)
      else
        (case try_body loads transform_epub (argv ! 1) st of
           (st', Exception e) \<Rightarrow>
             (print_stderr (dumps [(''success'', RBool False), (''error'', RStr (str e))]) st',
              SystemExit 1)
         | (st', e) \<Rightarrow> (st', e)))"

text \<open>One run of the script: \<open>main()\<close> on empty streams, then the end of the interpreter.\<close>

definition run ::
  "(string \<Rightarrow> exception + json) \<Rightarrow> (transform_epub_args \<Rightarrow> base_exception option) \<Rightarrow>
   string list \<Rightarrow> outcome" where
  "run loads transform_epub argv =
     (case main loads transform_epub argv \<lparr>stdout = [], stderr = []\<rparr> of
        (st, SystemExit n) \<Rightarrow> \<lparr>stdout = stdout st, stderr = stderr st, ending = Exited n\<rparr>
      | (st, e) \<Rightarrow> \<lparr>stdout = stdout st, stderr = stderr st, ending = Traceback e\<rparr>)"

subsection \<open>Notions used to state the properties\<close>

text \<open>\<open>isinstance(e, Exception)\<close>.\<close>

fun is_Exception :: "base_exception \<Rightarrow> bool" where
  "is_Exception (Exception e) = True"
| "is_Exception e = False"

text \<open>The value is a \<open>dict\<close> that has the key.\<close>

fun has_key :: "json \<Rightarrow> string \<Rightarrow> bool" where
  "has_key (JObj kvs) k = (map_of kvs k \<noteq> None)"
| "has_key v k = False"

text \<open>
  The conversion succeeded: the adapter reached the call of \<open>transform_epub\<close> and the call
  returned.
\<close>

definition conversion_succeeded ::
  "(string \<Rightarrow> exception + json) \<Rightarrow> (transform_epub_args \<Rightarrow> base_exception option) \<Rightarrow>
   string list \<Rightarrow> bool" where
  "conversion_succeeded loads transform_epub argv =
     (2 \<le> length argv \<and>
      (case loads (argv ! 1) of
         Inl e \<Rightarrow> False
       | Inr args \<Rightarrow>
           (case request_call args of
              Inl e \<Rightarrow> False
            | Inr c \<Rightarrow> transform_epub c = None)))"

text \<open>
  The three results of a run as the caller sees them: the line for a missing argument on
  standard output with exit code 1, the success line on standard output with exit code 0,
  and the failure line with a message on standard error with exit code 1.
\<close>

definition no_arguments_outcome :: outcome where
  "no_arguments_outcome =
     \<lparr>stdout = ''{\"success\": false, \"error\": \"No arguments provided\"}'' @ [CHR 0x0A],
      stderr = [], ending = Exited 1\<rparr>"

definition success_outcome :: outcome where
  "success_outcome =
     \<lparr>stdout = ''{\"success\": true}'' @ [CHR 0x0A], stderr = [], ending = Exited 0\<rparr>"

definition failure_outcome :: "string \<Rightarrow> outcome" where
  "failure_outcome m =
     \<lparr>stdout = [],
      stderr = ''{\"success\": false, \"error\": '' @ encode_str m @ ''}'' @ [CHR 0x0A],
      ending = Exited 1\<rparr>"

subsection \<open>Concrete runs\<close>

text \<open>
  Three requests as \<open>json.loads\<close> returns them, a stand-in for \<open>json.loads\<close> that knows
  four documents and rejects every other string with the message CPython gives for
  \<open>oops\<close>, and four conversion routines: one that
  returns, one that raises an instance of \<open>Exception\<close>, one that is interrupted and one
  that leaves through \<open>sys.exit(3)\<close>.
\<close>

definition example_items :: "(string \<times> json) list" where
  "example_items =
     [(''pdf_path'', JStr ''in.pdf''), (''epub_path'', JStr ''out.epub''),
      (''author'', JStr ''Jane Doe'')]"

definition example_items_extra :: "(string \<times> json) list" where
  "example_items_extra =
     [(''ocr_size'', JStr ''large''), (''pdf_path'', JStr ''in.pdf''),
      (''includes_cover'', JBool False), (''epub_path'', JStr ''out.epub''),
      (''author'', JStr ''Jane Doe'')]"


definition example_loads :: "string \<Rightarrow> exception + json" where
  "example_loads s =
     (if s = ''{\"pdf_path\": \"in.pdf\", \"epub_path\": \"out.epub\", \"author\": \"Jane Doe\"}''
      then Inr (JObj example_items)
      else if s = ''{\"ocr_size\": \"large\", \"pdf_path\": \"in.pdf\", \"includes_cover\": false, \"epub_path\": \"out.epub\", \"author\": \"Jane Doe\"}''
      then Inr (JObj example_items_extra)
      else if s = ''{\"epub_path\": \"out.epub\"}''
      then Inr (JObj [(''epub_path'', JStr ''out.epub'')])
      else if s = ''[]''
      then Inr (JArr [])
      else Inl (JSONDecodeError ''Expecting value: line 1 column 1 (char 0)''))"

definition example_argv :: "string list" where
  "example_argv =
     [''convert_pdf.py'',
      ''{\"pdf_path\": \"in.pdf\", \"epub_path\": \"out.epub\", \"author\": \"Jane Doe\"}'']"

definition example_argv_extra :: "string list" where
  "example_argv_extra =
     [''convert_pdf.py'',
      ''{\"ocr_size\": \"large\", \"pdf_path\": \"in.pdf\", \"includes_cover\": false, \"epub_path\": \"out.epub\", \"author\": \"Jane Doe\"}'']"


definition example_call :: transform_epub_args where
  "example_call =
     \<lparr>pdf_path = JStr ''in.pdf'', epub_path = JStr ''out.epub'',
      book_meta = \<lparr>title = JStr ''Untitled'', authors = [JStr ''Jane Doe'']\<rparr>,
      ocr_size = ''small'', includes_cover = True, includes_footnotes = True,
      ignore_pdf_errors = True, ignore_ocr_errors = True\<rparr>"

definition returning :: "transform_epub_args \<Rightarrow> base_exception option" where
  "returning c = None"

definition failing :: "transform_epub_args \<Rightarrow> base_exception option" where
  "failing c = Some (Exception (OtherException ''in.pdf: file not found''))"

definition interrupted :: "transform_epub_args \<Rightarrow> base_exception option" where
  "interrupted c = Some KeyboardInterrupt"

definition exiting :: "transform_epub_args \<Rightarrow> base_exception option" where
  "exiting c = Some (SystemExit 3)"

section \<open>Properties\<close>

subsection \<open>The serialised responses\<close>

lemma dumps_success: "dumps [(''success'', RBool True)] = ''{\"success\": true}''"
  by (simp add: dumps_def encode_str_def escape_char_def)

lemma dumps_failure:
  "dumps [(''success'', RBool False), (''error'', RStr m)] =
   ''{\"success\": false, \"error\": '' @ encode_str m @ ''}''"
  by (simp add: dumps_def encode_str_def escape_char_def)

lemma encode_no_arguments:
  "encode_str ''No arguments provided'' = ''\"No arguments provided\"''"
  by (simp add: encode_str_def escape_char_def)

text \<open>An encoded string holds no newline: \<open>json.dumps\<close> escapes it.\<close>

lemma hex_digit_not_newline: "hex_digit n \<noteq> CHR 0x0A"
proof -
  have "n mod 16 < length ''0123456789abcdef''" by simp
  then have "hex_digit n \<in> set ''0123456789abcdef''"
    unfolding hex_digit_def by (rule nth_mem)
  then show ?thesis by auto
qed

lemma escape_char_no_newline: "CHR 0x0A \<notin> set (escape_char c)"
  using hex_digit_not_newline [symmetric]
  by (auto simp: escape_char_def hex4_def)

lemma encode_str_no_newline: "CHR 0x0A \<notin> set (encode_str s)"
  by (simp add: encode_str_def escape_char_no_newline)

subsection \<open>The paths through \<open>main\<close>\<close>

lemma run_no_argument:
  "length argv < 2 \<Longrightarrow> run loads transform_epub argv = no_arguments_outcome"
  by (simp add: run_def main_def print_def dumps_failure encode_no_arguments
      no_arguments_outcome_def)

lemma run_loads_raises:
  "2 \<le> length argv \<Longrightarrow> loads (argv ! 1) = Inl e \<Longrightarrow>
   run loads transform_epub argv = failure_outcome (str e)"
  by (simp add: run_def main_def try_body_def print_stderr_def dumps_failure
      failure_outcome_def)

lemma run_request_raises:
  "2 \<le> length argv \<Longrightarrow> loads (argv ! 1) = Inr args \<Longrightarrow>
   request_call args = Inl (Exception e) \<Longrightarrow>
   run loads transform_epub argv = failure_outcome (str e)"
  by (simp add: run_def main_def try_body_def print_stderr_def dumps_failure
      failure_outcome_def)

lemma run_conversion_raises_Exception:
  "2 \<le> length argv \<Longrightarrow> loads (argv ! 1) = Inr args \<Longrightarrow>
   request_call args = Inr c \<Longrightarrow> transform_epub c = Some (Exception e) \<Longrightarrow>
   run loads transform_epub argv = failure_outcome (str e)"
  by (simp add: run_def main_def try_body_def print_stderr_def dumps_failure
      failure_outcome_def)

lemma run_conversion_returns:
  "2 \<le> length argv \<Longrightarrow> loads (argv ! 1) = Inr args \<Longrightarrow>
   request_call args = Inr c \<Longrightarrow> transform_epub c = None \<Longrightarrow>
   run loads transform_epub argv = success_outcome"
  by (simp add: run_def main_def try_body_def print_def dumps_success success_outcome_def)

text \<open>Reading the fields raises instances of \<open>Exception\<close> only.\<close>

lemma is_Exception_iff: "is_Exception e \<longleftrightarrow> (\<exists>x. e = Exception x)"
  by (cases e) auto

lemma subscript_raises_Exception: "subscript v k = Inl e \<Longrightarrow> is_Exception e"
  by (cases v) (auto split: option.splits)

lemma get_raises_Exception: "get v k d = Inl e \<Longrightarrow> is_Exception e"
  by (cases v) auto

lemma request_call_raises_Exception: "request_call args = Inl e \<Longrightarrow> is_Exception e"
  by (auto simp: request_call_def split: sum.splits
      dest: subscript_raises_Exception get_raises_Exception)


lemma request_call_missing_key:
  assumes "\<not> has_key args ''pdf_path'' \<or> \<not> has_key args ''epub_path''"
  shows "\<exists>e. request_call args = Inl (Exception e)"
proof (cases "request_call args")
  case (Inl e)
  then show ?thesis
    using request_call_raises_Exception [of args e] by (simp add: is_Exception_iff)
next
  case (Inr c)
  with assms show ?thesis
    by (cases args) (auto simp: request_call_def split: option.splits sum.splits)
qed

text \<open>
  Every run in which the conversion routine raises nothing outside \<open>Exception\<close> ends in
  one of the three results, and in the success result exactly when the conversion
  succeeded.
\<close>

lemma run_characterisation:
  assumes "\<And>args c e. loads (argv ! 1) = Inr args \<Longrightarrow> request_call args = Inr c \<Longrightarrow>
             transform_epub c = Some e \<Longrightarrow> is_Exception e"
  shows "(length argv < 2 \<and> \<not> conversion_succeeded loads transform_epub argv \<and>
            run loads transform_epub argv = no_arguments_outcome) \<or>
         (2 \<le> length argv \<and> conversion_succeeded loads transform_epub argv \<and>
            run loads transform_epub argv = success_outcome) \<or>
         (2 \<le> length argv \<and> \<not> conversion_succeeded loads transform_epub argv \<and>
            (\<exists>m. run loads transform_epub argv = failure_outcome m))"
proof (cases "length argv < 2")
  case True
  then show ?thesis
    by (simp add: run_no_argument conversion_succeeded_def)
next
  case False
  then have len: "2 \<le> length argv" by simp
  show ?thesis
  proof (cases "loads (argv ! 1)")
    case (Inl e)
    with len run_loads_raises [of argv loads e transform_epub] show ?thesis
      by (auto simp: conversion_succeeded_def)
  next
    case args: (Inr args)
    show ?thesis
    proof (cases "request_call args")
      case (Inl e)
      then obtain x where "e = Exception x"
        using request_call_raises_Exception [of args e] by (auto simp: is_Exception_iff)
      with Inl args len run_request_raises [of argv loads args x transform_epub]
      show ?thesis by (auto simp: conversion_succeeded_def)
    next
      case c: (Inr c)
      show ?thesis
      proof (cases "transform_epub c")
        case None
        with c args len run_conversion_returns [of argv loads args c transform_epub]
        show ?thesis by (simp add: conversion_succeeded_def)
      next
        case (Some e)
        with assms [OF args c] obtain x where "e = Exception x"
          by (auto simp: is_Exception_iff)
        with Some c args len
          run_conversion_raises_Exception [of argv loads args c transform_epub x]
        show ?thesis by (auto simp: conversion_succeeded_def)
      qed
    qed
  qed
qed

subsection \<open>The concrete runs\<close>

lemma example_argv_length: "2 \<le> length example_argv"
  by (simp add: example_argv_def)

lemma example_loads_argv: "example_loads (example_argv ! 1) = Inr (JObj example_items)"
  by (simp add: example_loads_def example_argv_def)

lemma example_request_call: "request_call (JObj example_items) = Inr example_call"
  by (simp add: request_call_def example_items_def example_call_def)



section \<open>The claims\<close>

text \<open>
  C1. Whenever the adapter reaches the call of the conversion routine and the call
  returns without raising, the run prints exactly the line \<open>{"success": true}\<close> on
  standard output, nothing on standard error, and ends with exit code 0.
\<close>

theorem C1_success_response:
  assumes "2 \<le> length argv"
    and "loads (argv ! 1) = Inr args"
    and "request_call args = Inr c"
    and "transform_epub c = None"
  shows "run loads transform_epub argv =
         \<lparr>stdout = ''{\"success\": true}'' @ [CHR 0x0A], stderr = [], ending = Exited 0\<rparr>"
  using run_conversion_returns
    [where loads = loads and argv = argv and transform_epub = transform_epub, OF assms]
  by (simp add: success_outcome_def)

theorem C1_success_response_witness:
  "2 \<le> length example_argv \<and>
   example_loads (example_argv ! 1) = Inr (JObj example_items) \<and>
   request_call (JObj example_items) = Inr example_call \<and>
   returning example_call = None \<and>
   run example_loads returning example_argv =
     \<lparr>stdout = ''{\"success\": true}'' @ [CHR 0x0A], stderr = [], ending = Exited 0\<rparr>"
proof -
  have h: "returning example_call = None" by (simp add: returning_def)
  show ?thesis
    using example_argv_length example_loads_argv example_request_call h
      C1_success_response [where loads = example_loads and argv = example_argv
        and transform_epub = returning,
        OF example_argv_length example_loads_argv example_request_call h]
    by simp
qed

text \<open>
  C2, as the code has it. With an argument present: when \<open>json.loads\<close> raises, when the
  parsed value lacks \<open>pdf_path\<close> or \<open>epub_path\<close>, and when the conversion routine raises
  an instance of \<open>Exception\<close>, the run prints nothing on standard output, prints the line
  \<open>{"success": false, "error": <str of the exception>}\<close> on standard error and ends with
  exit code 1. The result is the same function of the message in the three cases.
\<close>

theorem C2_failure_response:
  assumes "2 \<le> length argv"
  shows "(\<forall>e. loads (argv ! 1) = Inl e \<longrightarrow>
            run loads transform_epub argv = failure_outcome (str e)) \<and>
         (\<forall>args. loads (argv ! 1) = Inr args \<and>
                 (\<not> has_key args ''pdf_path'' \<or> \<not> has_key args ''epub_path'') \<longrightarrow>
            (\<exists>e. request_call args = Inl (Exception e) \<and>
                 run loads transform_epub argv = failure_outcome (str e))) \<and>
         (\<forall>args c e. loads (argv ! 1) = Inr args \<and> request_call args = Inr c \<and>
                 transform_epub c = Some (Exception e) \<longrightarrow>
            run loads transform_epub argv = failure_outcome (str e))"
proof (intro conjI allI impI)
  fix e assume "loads (argv ! 1) = Inl e"
  with assms show "run loads transform_epub argv = failure_outcome (str e)"
    by (rule run_loads_raises)
next
  fix args
  assume a: "loads (argv ! 1) = Inr args \<and>
             (\<not> has_key args ''pdf_path'' \<or> \<not> has_key args ''epub_path'')"
  then obtain e where e: "request_call args = Inl (Exception e)"
    using request_call_missing_key [of args] by blast
  with assms a have "run loads transform_epub argv = failure_outcome (str e)"
    using run_request_raises [of argv loads args e transform_epub] by simp
  with e show "\<exists>e. request_call args = Inl (Exception e) \<and>
                 run loads transform_epub argv = failure_outcome (str e)"
    by blast
next
  fix args c e
  assume "loads (argv ! 1) = Inr args \<and> request_call args = Inr c \<and>
          transform_epub c = Some (Exception e)"
  with assms show "run loads transform_epub argv = failure_outcome (str e)"
    using run_conversion_raises_Exception [of argv loads args c transform_epub e] by simp
qed

theorem C2_failure_response_witness:
  "example_loads ''oops'' = Inl (JSONDecodeError ''Expecting value: line 1 column 1 (char 0)'') \<and>
   run example_loads returning [''convert_pdf.py'', ''oops''] =
     failure_outcome ''Expecting value: line 1 column 1 (char 0)'' \<and>
   example_loads ''{\"epub_path\": \"out.epub\"}'' = Inr (JObj [(''epub_path'', JStr ''out.epub'')]) \<and>
   \<not> has_key (JObj [(''epub_path'', JStr ''out.epub'')]) ''pdf_path'' \<and>
   run example_loads returning [''convert_pdf.py'', ''{\"epub_path\": \"out.epub\"}''] =
     failure_outcome (quoted ''pdf_path'') \<and>
   example_loads (example_argv ! 1) = Inr (JObj example_items) \<and>
   request_call (JObj example_items) = Inr example_call \<and>
   failing example_call = Some (Exception (OtherException ''in.pdf: file not found'')) \<and>
   run example_loads failing example_argv = failure_outcome ''in.pdf: file not found''"
proof -
  have l1: "example_loads ([''convert_pdf.py'', ''oops''] ! 1) =
              Inl (JSONDecodeError ''Expecting value: line 1 column 1 (char 0)'')"
    by (simp add: example_loads_def)
  have l2: "example_loads ([''convert_pdf.py'', ''{\"epub_path\": \"out.epub\"}''] ! 1) =
              Inr (JObj [(''epub_path'', JStr ''out.epub'')])"
    by (simp add: example_loads_def)
  have k2: "\<not> has_key (JObj [(''epub_path'', JStr ''out.epub'')]) ''pdf_path''"
    by simp
  have r2: "request_call (JObj [(''epub_path'', JStr ''out.epub'')]) =
              Inl (Exception (KeyError (quoted ''pdf_path'')))"
    by (simp add: request_call_def)
  have f3: "failing example_call = Some (Exception (OtherException ''in.pdf: file not found''))"
    by (simp add: failing_def)
  have "run example_loads returning [''convert_pdf.py'', ''oops''] =
          failure_outcome ''Expecting value: line 1 column 1 (char 0)''"
    using C2_failure_response [of "[''convert_pdf.py'', ''oops'']" example_loads returning] l1
    by simp
  moreover have "run example_loads returning
                   [''convert_pdf.py'', ''{\"epub_path\": \"out.epub\"}''] =
                 failure_outcome (quoted ''pdf_path'')"
    using C2_failure_response
      [of "[''convert_pdf.py'', ''{\"epub_path\": \"out.epub\"}'']" example_loads returning]
      l2 k2 r2
    by auto
  moreover have "run example_loads failing example_argv =
                 failure_outcome ''in.pdf: file not found''"
    using C2_failure_response [OF example_argv_length, of example_loads failing]
      example_loads_argv example_request_call f3
    by auto
  ultimately show ?thesis
    using l1 l2 k2 f3 example_loads_argv example_request_call by simp
qed

text \<open>
  C2 as it is stated fails: \<open>except Exception\<close> does not catch an exception outside the
  class \<open>Exception\<close>. When the conversion routine is interrupted (\<open>KeyboardInterrupt\<close>),
  nothing is printed on standard error and the run ends with a traceback.
\<close>

theorem C2_counterexample:
  "2 \<le> length example_argv \<and>
   example_loads (example_argv ! 1) = Inr (JObj example_items) \<and>
   request_call (JObj example_items) = Inr example_call \<and>
   interrupted example_call = Some KeyboardInterrupt \<and>
   run example_loads interrupted example_argv =
     \<lparr>stdout = [], stderr = [], ending = Traceback KeyboardInterrupt\<rparr>"
  using example_argv_length example_loads_argv example_request_call
  by (simp add: run_def main_def try_body_def interrupted_def)

text \<open>
  C3. A run without a command-line argument (\<open>sys.argv\<close> holds the script's name at most)
  prints exactly the line \<open>{"success": false, "error": "No arguments provided"}\<close> on
  standard output, nothing on standard error, and ends with exit code 1.
\<close>

theorem C3_no_arguments:
  assumes "length argv < 2"
  shows "run loads transform_epub argv =
         \<lparr>stdout = ''{\"success\": false, \"error\": \"No arguments provided\"}'' @ [CHR 0x0A],
          stderr = [], ending = Exited 1\<rparr>"
  using run_no_argument [OF assms, of loads transform_epub]
  by (simp add: no_arguments_outcome_def)

theorem C3_no_arguments_witness:
  "length [''convert_pdf.py''] < 2 \<and>
   run example_loads returning [''convert_pdf.py''] =
     \<lparr>stdout = ''{\"success\": false, \"error\": \"No arguments provided\"}'' @ [CHR 0x0A],
      stderr = [], ending = Exited 1\<rparr>"
proof -
  have h: "length [''convert_pdf.py''] < 2" by simp
  show ?thesis using h C3_no_arguments [OF h, of example_loads returning] by simp
qed

text \<open>
  C4, as the code has it. In every run in which the conversion routine raises nothing
  outside the class \<open>Exception\<close>, the exit code is 0 when the conversion succeeded and 1
  otherwise: without an argument, when parsing raises, when a required key is missing and
  when the conversion raises.
\<close>

theorem C4_exit_code:
  assumes "\<And>args c e. loads (argv ! 1) = Inr args \<Longrightarrow> request_call args = Inr c \<Longrightarrow>
             transform_epub c = Some e \<Longrightarrow> is_Exception e"
  shows "ending (run loads transform_epub argv) =
         Exited (if conversion_succeeded loads transform_epub argv then 0 else 1)"
proof -
  have "(length argv < 2 \<and> \<not> conversion_succeeded loads transform_epub argv \<and>
            run loads transform_epub argv = no_arguments_outcome) \<or>
        (2 \<le> length argv \<and> conversion_succeeded loads transform_epub argv \<and>
            run loads transform_epub argv = success_outcome) \<or>
        (2 \<le> length argv \<and> \<not> conversion_succeeded loads transform_epub argv \<and>
            (\<exists>m. run loads transform_epub argv = failure_outcome m))"
    by (rule run_characterisation) (rule assms)
  then show ?thesis
    by (auto simp: no_arguments_outcome_def success_outcome_def failure_outcome_def)
qed

theorem C4_exit_code_witness:
  "failing example_call = Some (Exception (OtherException ''in.pdf: file not found'')) \<and>
   is_Exception (Exception (OtherException ''in.pdf: file not found'')) \<and>
   \<not> conversion_succeeded example_loads failing example_argv \<and>
   ending (run example_loads failing example_argv) = Exited 1 \<and>
   conversion_succeeded example_loads returning example_argv \<and>
   ending (run example_loads returning example_argv) = Exited 0"
proof -
  have h1: "\<And>args c e. example_loads (example_argv ! 1) = Inr args \<Longrightarrow>
              request_call args = Inr c \<Longrightarrow> failing c = Some e \<Longrightarrow> is_Exception e"
    by (auto simp: failing_def)
  have h2: "\<And>args c e. example_loads (example_argv ! 1) = Inr args \<Longrightarrow>
              request_call args = Inr c \<Longrightarrow> returning c = Some e \<Longrightarrow> is_Exception e"
    by (simp add: returning_def)
  have s1: "\<not> conversion_succeeded example_loads failing example_argv"
    using example_loads_argv example_request_call
    by (simp add: conversion_succeeded_def failing_def)
  have s2: "conversion_succeeded example_loads returning example_argv"
    using example_argv_length example_loads_argv example_request_call
    by (simp add: conversion_succeeded_def returning_def)
  show ?thesis
    using s1 s2
      C4_exit_code [where loads = example_loads and argv = example_argv
        and transform_epub = failing, OF h1]
      C4_exit_code [where loads = example_loads and argv = example_argv
        and transform_epub = returning, OF h2]
    by (simp add: failing_def)
qed

text \<open>
  C4 as it is stated fails: a conversion routine that leaves through \<open>sys.exit(3)\<close> raises
  \<open>SystemExit\<close>, which \<open>except Exception\<close> lets pass, and the process ends with exit code
  3 although the conversion did not succeed.
\<close>

theorem C4_counterexample:
  "exiting example_call = Some (SystemExit 3) \<and>
   \<not> conversion_succeeded example_loads exiting example_argv \<and>
   ending (run example_loads exiting example_argv) = Exited 3"
  using example_argv_length example_loads_argv example_request_call
  by (simp add: run_def main_def try_body_def exiting_def conversion_succeeded_def)







text \<open>
  C8, as the code has it. For every argument string, every exception raised while parsing
  and while reading the fields is caught, and so is every instance of \<open>Exception\<close> raised
  by the conversion routine: if the routine raises nothing outside \<open>Exception\<close>, the run
  ends with the success response or with a failure response and never with a traceback.
  A parsed value that is not a \<open>dict\<close> always gives a failure response.
\<close>

theorem C8_always_a_response:
  assumes "2 \<le> length argv"
    and "\<And>args c e. loads (argv ! 1) = Inr args \<Longrightarrow> request_call args = Inr c \<Longrightarrow>
           transform_epub c = Some e \<Longrightarrow> is_Exception e"
  shows "(run loads transform_epub argv = success_outcome \<or>
          (\<exists>m. run loads transform_epub argv = failure_outcome m)) \<and>
         (\<forall>e. ending (run loads transform_epub argv) \<noteq> Traceback e) \<and>
         (\<forall>v. loads (argv ! 1) = Inr v \<and> type_name v \<noteq> ''dict'' \<longrightarrow>
            (\<exists>m. run loads transform_epub argv = failure_outcome m))"
proof -
  have "(length argv < 2 \<and> \<not> conversion_succeeded loads transform_epub argv \<and>
            run loads transform_epub argv = no_arguments_outcome) \<or>
        (2 \<le> length argv \<and> conversion_succeeded loads transform_epub argv \<and>
            run loads transform_epub argv = success_outcome) \<or>
        (2 \<le> length argv \<and> \<not> conversion_succeeded loads transform_epub argv \<and>
            (\<exists>m. run loads transform_epub argv = failure_outcome m))"
    by (rule run_characterisation) (rule assms(2))
  with assms(1)
  have one: "run loads transform_epub argv = success_outcome \<or>
             (\<exists>m. run loads transform_epub argv = failure_outcome m)"
    by auto
  then have two: "\<forall>e. ending (run loads transform_epub argv) \<noteq> Traceback e"
    by (auto simp: success_outcome_def failure_outcome_def)
  have three: "\<exists>m. run loads transform_epub argv = failure_outcome m"
    if v: "loads (argv ! 1) = Inr v \<and> type_name v \<noteq> ''dict''" for v
  proof -
    from v have "\<not> has_key v ''pdf_path''" by (cases v) simp_all
    then obtain e where "request_call v = Inl (Exception e)"
      using request_call_missing_key [of v] by blast
    with assms(1) v have "run loads transform_epub argv = failure_outcome (str e)"
      using run_request_raises [of argv loads v e transform_epub] by simp
    then show ?thesis by blast
  qed
  from one two three show ?thesis by blast
qed

theorem C8_always_a_response_witness:
  "2 \<le> length [''convert_pdf.py'', ''[]''] \<and>
   example_loads ([''convert_pdf.py'', ''[]''] ! 1) = Inr (JArr []) \<and>
   type_name (JArr []) \<noteq> ''dict'' \<and>
   run example_loads failing [''convert_pdf.py'', ''[]''] =
     failure_outcome ''list indices must be integers or slices, not str'' \<and>
   ending (run example_loads failing [''convert_pdf.py'', ''[]'']) \<noteq>
     Traceback (Exception (TypeError ''list indices must be integers or slices, not str''))"
proof -
  have len: "2 \<le> length [''convert_pdf.py'', ''[]'']" by simp
  have l: "example_loads ([''convert_pdf.py'', ''[]''] ! 1) = Inr (JArr [])"
    by (simp add: example_loads_def)
  have h: "\<And>args c e. example_loads ([''convert_pdf.py'', ''[]''] ! 1) = Inr args \<Longrightarrow>
             request_call args = Inr c \<Longrightarrow> failing c = Some e \<Longrightarrow> is_Exception e"
    by (auto simp: failing_def)
  have r: "run example_loads failing [''convert_pdf.py'', ''[]''] =
             failure_outcome ''list indices must be integers or slices, not str''"
    using l run_request_raises [of "[''convert_pdf.py'', ''[]'']" example_loads "JArr []"
        "TypeError ''list indices must be integers or slices, not str''" failing]
    by (simp add: request_call_def)
  show ?thesis
    using len l r
      C8_always_a_response [where loads = example_loads and transform_epub = failing
        and argv = "[''convert_pdf.py'', ''[]'']", OF len h]
    by simp
qed

text \<open>
  C8 as it is stated fails: \<open>KeyboardInterrupt\<close> raised during the conversion is not an
  instance of \<open>Exception\<close>, the handler does not catch it, and the run ends with a
  traceback and without a JSON response.
\<close>

theorem C8_counterexample:
  "interrupted example_call = Some KeyboardInterrupt \<and>
   ending (run example_loads interrupted example_argv) = Traceback KeyboardInterrupt \<and>
   stdout (run example_loads interrupted example_argv) = [] \<and>
   stderr (run example_loads interrupted example_argv) = []"
  using example_argv_length example_loads_argv example_request_call
  by (simp add: run_def main_def try_body_def interrupted_def)

text \<open>
  C9. Two request objects that agree on \<open>pdf_path\<close>, \<open>epub_path\<close>, \<open>title\<close> and \<open>author\<close>
  (each key absent in both or bound to the same value in both) lead to the same call, or
  to the same exception before the call, and the two runs have the same output and the
  same ending, whatever other keys the objects hold.
\<close>

theorem C9_unknown_fields_ignored:
  assumes "\<forall>k \<in> {''pdf_path'', ''epub_path'', ''title'', ''author''}. map_of a k = map_of b k"
    and "loads s = Inr (JObj a)"
    and "loads s' = Inr (JObj b)"
  shows "request_call (JObj a) = request_call (JObj b) \<and>
         run loads transform_epub [p, s] = run loads transform_epub [p', s']"
proof -
  from assms(1) have "subscript (JObj a) ''pdf_path'' = subscript (JObj b) ''pdf_path''"
    and "subscript (JObj a) ''epub_path'' = subscript (JObj b) ''epub_path''"
    and "get (JObj a) ''title'' (JStr ''Untitled'') = get (JObj b) ''title'' (JStr ''Untitled'')"
    and "get (JObj a) ''author'' (JStr []) = get (JObj b) ''author'' (JStr [])"
    by simp_all
  then have "request_call (JObj a) = request_call (JObj b)"
    unfolding request_call_def by (simp only:)
  with assms(2,3) show ?thesis
    by (simp add: run_def main_def try_body_def)
qed

theorem C9_unknown_fields_ignored_witness:
  "map_of example_items ''pdf_path'' = map_of example_items_extra ''pdf_path'' \<and>
   map_of example_items ''epub_path'' = map_of example_items_extra ''epub_path'' \<and>
   map_of example_items ''title'' = map_of example_items_extra ''title'' \<and>
   map_of example_items ''author'' = map_of example_items_extra ''author'' \<and>
   example_loads (example_argv ! 1) = Inr (JObj example_items) \<and>
   example_loads (example_argv_extra ! 1) = Inr (JObj example_items_extra) \<and>
   example_items \<noteq> example_items_extra \<and>
   request_call (JObj example_items) = request_call (JObj example_items_extra) \<and>
   run example_loads failing [''convert_pdf.py'', example_argv ! 1] =
   run example_loads failing [''convert_pdf.py'', example_argv_extra ! 1]"
proof -
  have agree: "\<forall>k \<in> {''pdf_path'', ''epub_path'', ''title'', ''author''}.
                 map_of example_items k = map_of example_items_extra k"
    by (simp add: example_items_def example_items_extra_def)
  have l2: "example_loads (example_argv_extra ! 1) = Inr (JObj example_items_extra)"
    by (simp add: example_loads_def example_argv_extra_def)
  have ne: "example_items \<noteq> example_items_extra"
    by (simp add: example_items_def example_items_extra_def)
  show ?thesis
    using agree l2 ne example_loads_argv
      C9_unknown_fields_ignored [where loads = example_loads and transform_epub = failing
        and p = "''convert_pdf.py''" and p' = "''convert_pdf.py''",
        OF agree example_loads_argv l2]
    by simp
qed

text \<open>
  C10, as the code has it. In every run in which the conversion routine raises nothing
  outside the class \<open>Exception\<close>, the adapter writes exactly one line, ended by the only
  newline of its output, and writes it to exactly one of the two streams; the other
  stream stays empty.
\<close>

theorem C10_one_response_line:
  assumes "\<And>args c e. loads (argv ! 1) = Inr args \<Longrightarrow> request_call args = Inr c \<Longrightarrow>
             transform_epub c = Some e \<Longrightarrow> is_Exception e"
  shows "\<exists>line. CHR 0x0A \<notin> set line \<and>
           (stdout (run loads transform_epub argv) = line @ [CHR 0x0A] \<and>
              stderr (run loads transform_epub argv) = [] \<or>
            stdout (run loads transform_epub argv) = [] \<and>
              stderr (run loads transform_epub argv) = line @ [CHR 0x0A])"
proof -
  have "(length argv < 2 \<and> \<not> conversion_succeeded loads transform_epub argv \<and>
            run loads transform_epub argv = no_arguments_outcome) \<or>
        (2 \<le> length argv \<and> conversion_succeeded loads transform_epub argv \<and>
            run loads transform_epub argv = success_outcome) \<or>
        (2 \<le> length argv \<and> \<not> conversion_succeeded loads transform_epub argv \<and>
            (\<exists>m. run loads transform_epub argv = failure_outcome m))"
    by (rule run_characterisation) (rule assms)
  then consider
      "run loads transform_epub argv = no_arguments_outcome"
    | "run loads transform_epub argv = success_outcome"
    | m where "run loads transform_epub argv = failure_outcome m"
    by blast
  then show ?thesis
  proof cases
    case 1
    have "CHR 0x0A \<notin> set ''{\"success\": false, \"error\": \"No arguments provided\"}''"
      by simp
    with 1 show ?thesis
      unfolding no_arguments_outcome_def by (intro exI conjI disjI1) simp_all
  next
    case 2
    have "CHR 0x0A \<notin> set ''{\"success\": true}''" by simp
    with 2 show ?thesis
      unfolding success_outcome_def by (intro exI conjI disjI1) simp_all
  next
    case 3
    have "CHR 0x0A \<notin> set (''{\"success\": false, \"error\": '' @ encode_str m @ ''}'')"
      using encode_str_no_newline [of m] by simp
    with 3 show ?thesis
      unfolding failure_outcome_def by (intro exI conjI disjI2) simp_all
  qed
qed

theorem C10_one_response_line_witness:
  "failing example_call = Some (Exception (OtherException ''in.pdf: file not found'')) \<and>
   is_Exception (Exception (OtherException ''in.pdf: file not found'')) \<and>
   stdout (run example_loads failing example_argv) = [] \<and>
   stderr (run example_loads failing example_argv) =
     ''{\"success\": false, \"error\": \"in.pdf: file not found\"}'' @ [CHR 0x0A]"
proof -
  have h: "\<And>args c e. example_loads (example_argv ! 1) = Inr args \<Longrightarrow>
             request_call args = Inr c \<Longrightarrow> failing c = Some e \<Longrightarrow> is_Exception e"
    by (auto simp: failing_def)
  have r: "run example_loads failing example_argv = failure_outcome ''in.pdf: file not found''"
    using run_conversion_raises_Exception [of example_argv example_loads "JObj example_items"
        example_call failing "OtherException ''in.pdf: file not found''"]
      example_argv_length example_loads_argv example_request_call
    by (simp add: failing_def)
  have enc: "encode_str ''in.pdf: file not found'' = ''\"in.pdf: file not found\"''"
    by (simp add: encode_str_def escape_char_def)
  show ?thesis
    using r enc
      C10_one_response_line [where loads = example_loads and argv = example_argv
        and transform_epub = failing, OF h]
    by (simp add: failing_def failure_outcome_def)
qed

text \<open>
  C10 as it is stated fails: when the conversion routine leaves through \<open>sys.exit(3)\<close>,
  the adapter prints no line at all, on either stream.
\<close>

theorem C10_counterexample:
  "exiting example_call = Some (SystemExit 3) \<and>
   stdout (run example_loads exiting example_argv) = [] \<and>
   stderr (run example_loads exiting example_argv) = []"
  using example_argv_length example_loads_argv example_request_call
  by (simp add: run_def main_def try_body_def exiting_def)

end
